theory Spec2Isabelle
  imports Complex_Main "HOL-Library.Word"
begin

unbundle bit_operations_syntax

section \<open>Data model of the renderer (src/src/App.tsx)\<close>

text \<open>
  JavaScript numbers are modelled as exact reals; pixel counts and element sizes, which the
  platform delivers as unsigned integers, as naturals. The effect parameters are the
  \<open>params\<close> state object of the component.
\<close>

record params =
  threshold :: real
  brightness :: real
  chaos :: real
  slices :: nat
  displacement :: real
  feedback :: real
  invertChance :: real
  scale :: real
  zoomGlitch :: real

definition defaultParams :: params where
  "defaultParams =
     \<lparr> threshold = 200, brightness = 100, chaos = 1/2, slices = 5, displacement = 50,
       feedback = 1/10, invertChance = 1/10, scale = 1, zoomGlitch = 1/10 \<rparr>"

text \<open>
  The part of the 2D context state the render loop writes: composite operation, filter chain,
  fill and stroke style, line width. Colours are (r, g, b, alpha) with channels on the
  0..255 scale and alpha in 0..1, as in the CSS \<open>rgba(...)\<close> strings of the source.
\<close>

datatype composite = SourceOver | Screen | Difference

datatype filter_fn = Invert real | Contrast real | Brightness real | Grayscale real

type_synonym rgba = "real \<times> real \<times> real \<times> real"

record ctx2d =
  globalCompositeOperation :: composite
  filter_chain :: "filter_fn list"
  fillStyle :: rgba
  strokeStyle :: rgba
  lineWidth :: real

definition default_ctx :: ctx2d where
  "default_ctx =
     \<lparr> globalCompositeOperation = SourceOver, filter_chain = [],
       fillStyle = (0, 0, 0, 1), strokeStyle = (0, 0, 0, 1), lineWidth = 1 \<rparr>"

text \<open>
  The calls the loop makes on the canvas. A tick is modelled by the list of these calls in
  program order, each paired with the context state in force when it is made.
  \<open>SetSize\<close> stands for the two assignments to \<open>canvas.width\<close> and \<open>canvas.height\<close>;
  \<open>DrawImage\<close> is the five-argument and \<open>DrawImageSub\<close> the nine-argument form of
  \<open>ctx.drawImage(video, ...)\<close>.
\<close>

datatype draw_op =
    SetSize nat nat
  | FillRect real real real real
  | PutImageData "32 word list" nat nat
  | DrawImage real real real real
  | DrawImageSub real real real real real real real real
  | StrokeRect real real real real

type_synonym cmd = "ctx2d \<times> draw_op"

record video =
  readyState :: nat
  videoWidth :: nat
  videoHeight :: nat

record canvas =
  width :: nat
  height :: nat
  context2d :: ctx2d

datatype error = IndexSizeError | TypeError | InvalidStateError

text \<open>
  What the loop reads besides \<open>params\<close> and \<open>videoSrc\<close> (the argument \<open>src\<close> below): the three element refs
  (\<open>None\<close> is a \<open>null\<close> ref; the container is given by its client width and height), and
  the global random generator. \<open>Math.random()\<close> is a free-standing global call in the
  source; it is modelled by the sequence \<open>math_random\<close> of the values it returns and the
  number \<open>drawn\<close> of calls made so far, so the call number \<open>k\<close> returns \<open>math_random k\<close>.
\<close>

record world =
  canvasRef :: "canvas option"
  videoRef :: "video option"
  containerRef :: "(nat \<times> nat) option"
  math_random :: "nat \<Rightarrow> real"
  drawn :: nat

text \<open>
  The outcome of one call of \<open>renderLoop\<close>: the world after it, the canvas calls made,
  an exception if one escaped, and whether \<open>requestAnimationFrame(renderLoop)\<close> was called.
\<close>

record outcome =
  after :: world
  commands :: "cmd list"
  raised :: "error option"
  rescheduled :: bool

section \<open>The render loop\<close>

text \<open>Resize handling (lines 119-125). Setting the size of a canvas resets its context.\<close>

definition resize_canvas :: "(nat \<times> nat) option \<Rightarrow> canvas \<Rightarrow> canvas \<times> cmd list" where
  "resize_canvas container cv =
     (case container of
        None \<Rightarrow> (cv, [])
      | Some (clientWidth, clientHeight) \<Rightarrow>
          if width cv \<noteq> clientWidth \<or> height cv \<noteq> clientHeight
          then (\<lparr> width = clientWidth, height = clientHeight, context2d = default_ctx \<rparr>,
                [(default_ctx, SetSize clientWidth clientHeight)])
          else (cv, []))"

text \<open>Step 1, feedback (lines 131-133).\<close>

definition feedback_ctx :: "params \<Rightarrow> ctx2d \<Rightarrow> ctx2d" where
  "feedback_ctx p ctx =
     ctx \<lparr> globalCompositeOperation := SourceOver, fillStyle := (0, 0, 0, 1 - feedback p) \<rparr>"

definition feedback_fill :: "params \<Rightarrow> ctx2d \<Rightarrow> real \<Rightarrow> real \<Rightarrow> cmd" where
  "feedback_fill p ctx w h = (feedback_ctx p ctx, FillRect 0 0 w h)"

text \<open>
  The noise loop (lines 140-142): one \<open>Math.random()\<close> call for each element of the
  32-bit view of the fresh image buffer.
\<close>

function noise_loop :: "(nat \<Rightarrow> real) \<Rightarrow> nat \<Rightarrow> 32 word list \<Rightarrow> nat \<Rightarrow> 32 word list \<times> nat" where
  "noise_loop rnd i buffer32 k =
     (if i < length buffer32
      then noise_loop rnd (i + 1)
             (if rnd k < 1 / 10 then buffer32[i := 0xff1a1a1a] else buffer32) (k + 1)
      else (buffer32, k))"
  by pat_completeness auto
termination
  by (relation "measure (\<lambda>(rnd, i, buffer32, k). length buffer32 - i)") auto

declare noise_loop.simps [simp del]

text \<open>Step 2, the base video draw (lines 153-159).\<close>

definition coverScale :: "params \<Rightarrow> real \<Rightarrow> real \<Rightarrow> real \<Rightarrow> real \<Rightarrow> real" where
  "coverScale p w h vw vh = max (w / vw) (h / vh) * scale p"

definition drawW :: "params \<Rightarrow> real \<Rightarrow> real \<Rightarrow> real \<Rightarrow> real \<Rightarrow> real" where
  "drawW p w h vw vh = vw * coverScale p w h vw vh"

definition drawH :: "params \<Rightarrow> real \<Rightarrow> real \<Rightarrow> real \<Rightarrow> real \<Rightarrow> real" where
  "drawH p w h vw vh = vh * coverScale p w h vw vh"

definition offsetX :: "params \<Rightarrow> real \<Rightarrow> real \<Rightarrow> real \<Rightarrow> real \<Rightarrow> real" where
  "offsetX p w h vw vh = (w - drawW p w h vw vh) / 2"

definition offsetY :: "params \<Rightarrow> real \<Rightarrow> real \<Rightarrow> real \<Rightarrow> real \<Rightarrow> real" where
  "offsetY p w h vw vh = (h - drawH p w h vw vh) / 2"

definition base_filter :: "params \<Rightarrow> filter_fn list" where
  "base_filter p = [Contrast (threshold p), Brightness (brightness p), Grayscale 100]"

definition base_draw :: "params \<Rightarrow> ctx2d \<Rightarrow> real \<Rightarrow> real \<Rightarrow> real \<Rightarrow> real \<Rightarrow> cmd" where
  "base_draw p ctx w h vw vh =
     (ctx \<lparr> filter_chain := base_filter p, globalCompositeOperation := Screen \<rparr>,
      DrawImage (offsetX p w h vw vh) (offsetY p w h vw vh) (drawW p w h vw vh) (drawH p w h vw vh))"

text \<open>
  Step 3, the glitch slices (lines 166-204). \<open>r\<close> is the helper of line 166 applied to the
  value its \<open>Math.random()\<close> call returns. An attempt that passes the chaos test makes ten
  calls of \<open>Math.random()\<close>, in this order: chaos test, inversion, \<open>sx\<close>, \<open>sy\<close>,
  \<open>sWidth\<close>, \<open>sHeight\<close>, the displacement of \<open>dx\<close>, the displacement of \<open>dy\<close>, zoom,
  scanline; an attempt that fails it makes one. \<open>ctx.save()\<close> and \<open>ctx.restore()\<close>
  bracket the attempt, so each attempt starts from the same context state.
\<close>

definition r :: "real \<Rightarrow> real \<Rightarrow> real \<Rightarrow> real" where
  "r u lo hi = u * (hi - lo) + lo"

definition slice_ctx :: "params \<Rightarrow> ctx2d \<Rightarrow> real \<Rightarrow> ctx2d" where
  "slice_ctx p ctx u =
     (if u < invertChance p
      then ctx \<lparr> filter_chain := [Invert 100, Contrast (threshold p), Grayscale 100],
                 globalCompositeOperation := Difference \<rparr>
      else ctx \<lparr> filter_chain := base_filter p, globalCompositeOperation := SourceOver \<rparr>)"

definition slice_attempt ::
  "params \<Rightarrow> real \<Rightarrow> real \<Rightarrow> real \<Rightarrow> real \<Rightarrow> real \<Rightarrow> ctx2d \<Rightarrow> (nat \<Rightarrow> real) \<Rightarrow> nat \<Rightarrow> cmd list \<times> nat" where
  "slice_attempt p vw vh scl offX offY ctx rnd k =
     (if rnd k > 1 - chaos p then
        let ctx1 = slice_ctx p ctx (rnd (k + 1));
            sx = rnd (k + 2) * vw;
            sy = rnd (k + 3) * vh;
            sWidth = rnd (k + 4) * (vw / 2);
            sHeight = rnd (k + 5) * (vh / 2);
            dx = (sx * scl) + offX + r (rnd (k + 6)) (- displacement p) (displacement p);
            dy = (sy * scl) + offY + r (rnd (k + 7)) (- displacement p) (displacement p);
            z = 1 + (rnd (k + 8) * zoomGlitch p);
            dWidth = (sWidth * scl) * z;
            dHeight = (sHeight * scl) * z;
            draw = (ctx1, DrawImageSub sx sy sWidth sHeight dx dy dWidth dHeight);
            stroke = (ctx1 \<lparr> strokeStyle := (255, 255, 255, 1), lineWidth := 2 \<rparr>,
                      StrokeRect dx dy dWidth dHeight)
        in (if rnd (k + 9) < 3 / 10 then [draw, stroke] else [draw], k + 10)
      else ([], k + 1))"

fun slices_loop ::
  "params \<Rightarrow> real \<Rightarrow> real \<Rightarrow> real \<Rightarrow> real \<Rightarrow> real \<Rightarrow> ctx2d \<Rightarrow> (nat \<Rightarrow> real) \<Rightarrow> nat \<Rightarrow> nat \<Rightarrow> cmd list \<times> nat" where
  "slices_loop p vw vh scl offX offY ctx rnd 0 k = ([], k)"
| "slices_loop p vw vh scl offX offY ctx rnd (Suc n) k =
     (let (cs, k1) = slice_attempt p vw vh scl offX offY ctx rnd k;
          (rest, k2) = slices_loop p vw vh scl offX offY ctx rnd n k1
      in (cs @ rest, k2))"

text \<open>
  \<open>renderLoop\<close> (lines 110-207). \<open>createImageData\<close> raises \<open>IndexSizeError\<close> for a
  zero width or height; the exception leaves the callback before the next frame is requested.
\<close>

definition renderLoop :: "params \<Rightarrow> string \<Rightarrow> world \<Rightarrow> outcome" where
  "renderLoop p src s =
     (case (canvasRef s, videoRef s) of
        (Some cv0, Some vid) \<Rightarrow>
          let (cv, resize) = resize_canvas (containerRef s) cv0;
              w = real (width cv);
              h = real (height cv);
              ctx = feedback_ctx p (context2d cv);
              s1 = s \<lparr> canvasRef := Some (cv \<lparr> context2d := ctx \<rparr>) \<rparr>;
              fill = feedback_fill p (context2d cv) w h
          in if readyState vid < 2 then
               (if src = [] then
                  (if width cv = 0 \<or> height cv = 0 then
                     \<lparr> after = s1, commands = resize @ [fill],
                       raised = Some IndexSizeError, rescheduled = False \<rparr>
                   else
                     let (buffer32, k) =
                           noise_loop (math_random s) 0
                             (replicate (width cv * height cv) 0) (drawn s)
                     in \<lparr> after = s1 \<lparr> drawn := k \<rparr>,
                          commands = resize @ [fill, (ctx, PutImageData buffer32 0 0)],
                          raised = None, rescheduled = True \<rparr>)
                else
                  \<lparr> after = s1, commands = resize @ [fill], raised = None, rescheduled = True \<rparr>)
             else
               let vw = real (videoWidth vid);
                   vh = real (videoHeight vid);
                   (sl, k) = slices_loop p vw vh (coverScale p w h vw vh)
                               (offsetX p w h vw vh) (offsetY p w h vw vh)
                               ctx (math_random s) (slices p) (drawn s)
               in \<lparr> after = s1 \<lparr> drawn := k \<rparr>,
                    commands = resize @ [fill, base_draw p ctx w h vw vh] @ sl,
                    raised = None, rescheduled = True \<rparr>
      | _ \<Rightarrow> \<lparr> after = s, commands = [], raised = None, rescheduled = False \<rparr>)"

section \<open>What the canvas calls do to the pixels\<close>

text \<open>
  The canvas is opaque (\<open>getContext('2d', { alpha: false })\<close>), so a pixel of the surface is
  its three colour channels. Only the two calls whose effect on a pixel does not depend on
  the video are interpreted: a \<open>fillRect\<close> over the whole canvas under \<open>source-over\<close>
  (the platform's normal compositing, result = alpha * source + (1 - alpha) * backdrop) and
  \<open>putImageData\<close> at the origin with a buffer of the size of the canvas, which copies the
  buffer over the pixels without compositing. Setting the size clears the canvas.
  \<open>pixel_of_word\<close> reads an element of the 32-bit view in the little-endian byte order
  (red in the low byte), for the two values the loop stores: opaque colours and 0.
\<close>

type_synonym pixel = "real \<times> real \<times> real"

record surface =
  surface_width :: nat
  surface_height :: nat
  pixels :: "pixel list"

fun source_over :: "rgba \<Rightarrow> pixel \<Rightarrow> pixel" where
  "source_over (rs, gs, bs, a) (rb, gb, bb) =
     (a * rs + (1 - a) * rb, a * gs + (1 - a) * gb, a * bs + (1 - a) * bb)"

definition pixel_of_word :: "32 word \<Rightarrow> pixel" where
  "pixel_of_word x =
     (real (unat (x AND 0xff)), real (unat (drop_bit 8 x AND 0xff)),
      real (unat (drop_bit 16 x AND 0xff)))"

fun paint :: "cmd \<Rightarrow> surface \<Rightarrow> surface option" where
  "paint (ctx, SetSize w h) sf =
     Some \<lparr> surface_width = w, surface_height = h, pixels = replicate (w * h) (0, 0, 0) \<rparr>"
| "paint (ctx, FillRect x y w h) sf =
     (if x = 0 \<and> y = 0 \<and> w = real (surface_width sf) \<and> h = real (surface_height sf)
         \<and> globalCompositeOperation ctx = SourceOver \<and> filter_chain ctx = []
      then Some (sf \<lparr> pixels := map (source_over (fillStyle ctx)) (pixels sf) \<rparr>)
      else None)"
| "paint (ctx, PutImageData buffer32 dx dy) sf =
     (if dx = 0 \<and> dy = 0 \<and> length buffer32 = surface_width sf * surface_height sf
      then Some (sf \<lparr> pixels := map pixel_of_word buffer32 \<rparr>)
      else None)"
| "paint (ctx, DrawImage dx dy dw dh) sf = None"
| "paint (ctx, DrawImageSub sx sy sw sh dx dy dw dh) sf = None"
| "paint (ctx, StrokeRect x y w h) sf = None"

fun paint_all :: "cmd list \<Rightarrow> surface \<Rightarrow> surface option" where
  "paint_all [] sf = Some sf"
| "paint_all (c # cs) sf = (case paint c sf of None \<Rightarrow> None | Some sf1 \<Rightarrow> paint_all cs sf1)"

text \<open>One tick and \<open>n\<close> successive ticks of the loop on a world and its surface.\<close>

definition tick :: "params \<Rightarrow> string \<Rightarrow> world \<times> surface \<Rightarrow> (world \<times> surface) option" where
  "tick p src ws =
     (let out = renderLoop p src (fst ws)
      in case raised out of
           Some e \<Rightarrow> None
         | None \<Rightarrow> map_option (\<lambda>sf. (after out, sf)) (paint_all (commands out) (snd ws)))"



section \<open>Playback and recording handlers\<close>

text \<open>
  The component state the handlers touch, together with the platform objects they act on.
  \<open>video_mounted\<close> and \<open>canvas_mounted\<close> say whether \<open>videoRef.current\<close> and
  \<open>canvasRef.current\<close> are set; \<open>video_paused\<close> is the playback state of the video
  element; \<open>console\<close> collects what \<open>console.error\<close> was given. A chunk is a blob of
  bytes. \<open>recorders\<close> holds every \<open>MediaRecorder\<close> created so far, at its index of
  creation, in one of three phases: recording, finalizing (\<open>stop()\<close> was called and the
  final \<open>dataavailable\<close> and \<open>stop\<close> events are pending; the \<open>state\<close> attribute already
  reads inactive), or inactive. \<open>downloads\<close> lists the files saved through the anchor click.
\<close>

type_synonym blob = "8 word list"

datatype phase = Inactive | Recording | Finalizing

datatype log_entry = PlayRejected

record download =
  href :: blob
  mime :: string
  filename :: string

record app =
  isPlaying :: bool
  videoSrc :: string
  isRecording :: bool
  video_mounted :: bool
  canvas_mounted :: bool
  video_paused :: bool
  console :: "log_entry list"
  recorderRef :: "nat option"
  recordedChunksRef :: "blob list"
  recorders :: "phase list"
  downloads :: "download list"

definition initial_app :: app where
  "initial_app =
     \<lparr> isPlaying = False, videoSrc = [], isRecording = False, video_mounted = True,
       canvas_mounted = True, video_paused = True, console = [], recorderRef = None,
       recordedChunksRef = [], recorders = [], downloads = [] \<rparr>"

text \<open>
  \<open>video.play()\<close> returns a promise that the platform resolves or rejects; \<open>accepted\<close> is
  the platform's answer. A rejection reaches the \<open>catch\<close> handler, which logs it.
\<close>

definition play_catch :: "bool \<Rightarrow> app \<Rightarrow> app" where
  "play_catch accepted s =
     (if accepted then s \<lparr> video_paused := False \<rparr>
      else s \<lparr> console := console s @ [PlayRejected] \<rparr>)"

text \<open>\<open>handleFileUpload\<close> (lines 75-82); the file is given by its object URL.\<close>

definition handleFileUpload :: "string option \<Rightarrow> app \<Rightarrow> app" where
  "handleFileUpload file s =
     (case file of
        None \<Rightarrow> s
      | Some url \<Rightarrow> s \<lparr> videoSrc := url, isPlaying := True \<rparr>)"

text \<open>\<open>togglePlay\<close> (lines 84-93).\<close>

definition togglePlay :: "bool \<Rightarrow> app \<Rightarrow> app" where
  "togglePlay accepted s =
     (if video_mounted s then
        (if isPlaying s then s \<lparr> video_paused := True \<rparr> else play_catch accepted s)
          \<lparr> isPlaying := \<not> isPlaying s \<rparr>
      else s)"

text \<open>The effect on \<open>videoSrc\<close> (lines 220-224).\<close>

definition videoSrc_effect :: "bool \<Rightarrow> app \<Rightarrow> app" where
  "videoSrc_effect accepted s =
     (if videoSrc s \<noteq> [] \<and> video_mounted s then
        (if accepted then (play_catch accepted s) \<lparr> isPlaying := True \<rparr>
         else play_catch accepted s)
      else s)"

text \<open>
  \<open>startRecording\<close> (lines 34-63). A \<open>null\<close> canvas ref raises at \<open>captureStream\<close>, after
  \<open>setIsRecording(true)\<close>. The new recorder takes the next index and is started.
\<close>

definition startRecording :: "app \<Rightarrow> error option \<times> app" where
  "startRecording s =
     (let s1 = s \<lparr> isRecording := True \<rparr>
      in if \<not> canvas_mounted s then (Some TypeError, s1)
         else (None, s1 \<lparr> recordedChunksRef := [],
                          recorders := recorders s @ [Recording],
                          recorderRef := Some (length (recorders s)) \<rparr>))"

text \<open>The two handlers every recorder is given (lines 46-59).\<close>

definition ondataavailable :: "blob \<Rightarrow> app \<Rightarrow> app" where
  "ondataavailable data s =
     (if length data > 0 then s \<lparr> recordedChunksRef := recordedChunksRef s @ [data] \<rparr> else s)"

text \<open>
  The blob built from the chunks with type \<open>video/webm\<close>, offered under the anchor's
  \<open>download\<close> name (lines 53-58).
\<close>

definition artifact :: "blob list \<Rightarrow> download" where
  "artifact chunks =
     \<lparr> href = concat chunks, mime = ''video/webm'', filename = ''glitch_effect.webm'' \<rparr>"

definition onstop :: "app \<Rightarrow> app" where
  "onstop s =
     s \<lparr> isRecording := False, downloads := downloads s @ [artifact (recordedChunksRef s)] \<rparr>"

text \<open>
  \<open>MediaRecorder.stop()\<close> of the platform, on the recorder with index \<open>rid\<close>. On a recorder
  that records it starts the finalization. On one whose state is inactive, engines differ:
  with \<open>strict\<close> the call raises \<open>InvalidStateError\<close>, without it the call does nothing.
\<close>

definition media_stop :: "bool \<Rightarrow> nat \<Rightarrow> app \<Rightarrow> error option \<times> app" where
  "media_stop strict rid s =
     (if rid < length (recorders s) \<and> recorders s ! rid = Recording
      then (None, s \<lparr> recorders := (recorders s)[rid := Finalizing] \<rparr>)
      else if strict then (Some InvalidStateError, s) else (None, s))"

text \<open>\<open>stopRecording\<close> (lines 65-69).\<close>

definition stopRecording :: "bool \<Rightarrow> app \<Rightarrow> error option \<times> app" where
  "stopRecording strict s =
     (case recorderRef s of
        None \<Rightarrow> (None, s)
      | Some rid \<Rightarrow> media_stop strict rid s)"

text \<open>
  What can happen to the recording part: the two handlers are called, or the platform fires
  an event at a recorder. A recorder delivers data while it records or finalizes, and its
  \<open>stop\<close> event ends the finalization. An exception that escapes a handler is reported by
  the browser and the page goes on with the state reached. \<open>step\<close> is \<open>None\<close> for an event
  the platform cannot fire in that state.
\<close>

datatype event = CallStart | CallStop | DataAvailable nat blob | StopEvent nat

definition step :: "bool \<Rightarrow> event \<Rightarrow> app \<Rightarrow> app option" where
  "step strict ev s =
     (case ev of
        CallStart \<Rightarrow> Some (snd (startRecording s))
      | CallStop \<Rightarrow> Some (snd (stopRecording strict s))
      | DataAvailable rid data \<Rightarrow>
          if rid < length (recorders s) \<and> recorders s ! rid \<noteq> Inactive
          then Some (ondataavailable data s) else None
      | StopEvent rid \<Rightarrow>
          if rid < length (recorders s) \<and> recorders s ! rid = Finalizing
          then Some (onstop (s \<lparr> recorders := (recorders s)[rid := Inactive] \<rparr>)) else None)"

fun run :: "bool \<Rightarrow> event list \<Rightarrow> app \<Rightarrow> app option" where
  "run strict [] s = Some s"
| "run strict (ev # evs) s =
     (case step strict ev s of None \<Rightarrow> None | Some s1 \<Rightarrow> run strict evs s1)"


section \<open>Concrete states\<close>

definition wide_world :: world where
  "wide_world =
     \<lparr> canvasRef = Some \<lparr> width = 4, height = 2, context2d = default_ctx \<rparr>,
       videoRef = Some \<lparr> readyState = 4, videoWidth = 2, videoHeight = 2 \<rparr>,
       containerRef = Some (4, 2), math_random = (\<lambda>k. 0), drawn = 0 \<rparr>"

definition square_world :: world where
  "square_world =
     \<lparr> canvasRef = Some \<lparr> width = 2, height = 2, context2d = default_ctx \<rparr>,
       videoRef = Some \<lparr> readyState = 4, videoWidth = 2, videoHeight = 2 \<rparr>,
       containerRef = Some (2, 2), math_random = (\<lambda>k. 0), drawn = 0 \<rparr>"





definition sparse_random :: "nat \<Rightarrow> real" where
  "sparse_random k = (if k = 0 then 0 else 1 / 2)"

definition noise_world :: world where
  "noise_world =
     \<lparr> canvasRef = Some \<lparr> width = 2, height = 1, context2d = default_ctx \<rparr>,
       videoRef = Some \<lparr> readyState = 0, videoWidth = 0, videoHeight = 0 \<rparr>,
       containerRef = Some (2, 1), math_random = sparse_random, drawn = 0 \<rparr>"

definition white_surface :: surface where
  "white_surface =
     \<lparr> surface_width = 2, surface_height = 1, pixels = [(255, 255, 255), (255, 255, 255)] \<rparr>"






section \<open>The base composite\<close>

lemma renderLoop_ready:
  assumes "canvasRef s = Some cv0" "videoRef s = Some vid" "2 \<le> readyState vid"
  shows "commands (renderLoop p src s) =
           snd (resize_canvas (containerRef s) cv0) @
           [feedback_fill p (context2d (fst (resize_canvas (containerRef s) cv0)))
              (real (width (fst (resize_canvas (containerRef s) cv0))))
              (real (height (fst (resize_canvas (containerRef s) cv0)))),
            base_draw p (feedback_ctx p (context2d (fst (resize_canvas (containerRef s) cv0))))
              (real (width (fst (resize_canvas (containerRef s) cv0))))
              (real (height (fst (resize_canvas (containerRef s) cv0))))
              (real (videoWidth vid)) (real (videoHeight vid))] @
           fst (slices_loop p (real (videoWidth vid)) (real (videoHeight vid))
                 (coverScale p (real (width (fst (resize_canvas (containerRef s) cv0))))
                    (real (height (fst (resize_canvas (containerRef s) cv0))))
                    (real (videoWidth vid)) (real (videoHeight vid)))
                 (offsetX p (real (width (fst (resize_canvas (containerRef s) cv0))))
                    (real (height (fst (resize_canvas (containerRef s) cv0))))
                    (real (videoWidth vid)) (real (videoHeight vid)))
                 (offsetY p (real (width (fst (resize_canvas (containerRef s) cv0))))
                    (real (height (fst (resize_canvas (containerRef s) cv0))))
                    (real (videoWidth vid)) (real (videoHeight vid)))
                 (feedback_ctx p (context2d (fst (resize_canvas (containerRef s) cv0))))
                 (math_random s) (slices p) (drawn s))"
  using assms by (simp add: renderLoop_def Let_def split: prod.splits)

lemma cover_centred:
  "offsetX p w h vw vh + drawW p w h vw vh / 2 = w / 2"
  "offsetY p w h vw vh + drawH p w h vw vh / 2 = h / 2"
  by (simp_all add: offsetX_def offsetY_def field_simps)

lemma cover_one_axis:
  fixes w h vw vh :: real
  assumes "0 < vw" "0 < vh" and sc: "0 \<le> scale p"
  shows "(drawW p w h vw vh = w * scale p \<and> h * scale p \<le> drawH p w h vw vh) \<or>
         (drawH p w h vw vh = h * scale p \<and> w * scale p \<le> drawW p w h vw vh)"
proof (cases "h / vh \<le> w / vw")
  case True
  then have m: "max (w / vw) (h / vh) = w / vw" by simp
  have "h \<le> vh * (w / vw)" using True assms by (simp add: field_simps)
  then have "h * scale p \<le> vh * (w / vw) * scale p" using sc by (rule mult_right_mono)
  then show ?thesis using assms by (simp add: drawW_def drawH_def coverScale_def m mult.assoc)
next
  case False
  then have m: "max (w / vw) (h / vh) = h / vh" by simp
  have "w \<le> vw * (h / vh)" using False assms by (simp add: field_simps)
  then have "w * scale p \<le> vw * (h / vh) * scale p" using sc by (rule mult_right_mono)
  then show ?thesis using assms by (simp add: drawW_def drawH_def coverScale_def m mult.assoc)
qed

text \<open>
  C1, as amended. For a ready frame of size (vw, vh) and a surface of size (w, h), the base
  composite is the call after the feedback fill: it draws the full frame at
  coverScale = max(w/vw, h/vh) * params.scale, at the offsets (w - vw*coverScale)/2 and
  (h - vh*coverScale)/2, under the screen blend and the contrast, brightness, grayscale
  filter chain. The drawn image is centred on both axes; on at least one axis its extent is
  exactly \<open>scale\<close> times that of the surface and on the other at least that. So it
  covers the surface exactly on one axis when \<open>scale = 1\<close>, not for every value of
  \<open>scale\<close>.
\<close>

theorem base_composite_cover_fit:
  assumes "canvasRef s = Some cv0" and "videoRef s = Some vid" and "2 \<le> readyState vid"
    and "0 < videoWidth vid" and "0 < videoHeight vid"
  shows "let cv = fst (resize_canvas (containerRef s) cv0);
             w = real (width cv); h = real (height cv);
             vw = real (videoWidth vid); vh = real (videoHeight vid);
             cs = max (w / vw) (h / vh) * scale p;
             base = commands (renderLoop p src s) ! (length (snd (resize_canvas (containerRef s) cv0)) + 1)
         in snd base = DrawImage ((w - vw * cs) / 2) ((h - vh * cs) / 2) (vw * cs) (vh * cs)
          \<and> globalCompositeOperation (fst base) = Screen
          \<and> filter_chain (fst base) = [Contrast (threshold p), Brightness (brightness p), Grayscale 100]
          \<and> (w - vw * cs) / 2 + vw * cs / 2 = w / 2
          \<and> (h - vh * cs) / 2 + vh * cs / 2 = h / 2
          \<and> (0 \<le> scale p \<longrightarrow>
               (vw * cs = w * scale p \<and> h * scale p \<le> vh * cs) \<or>
               (vh * cs = h * scale p \<and> w * scale p \<le> vw * cs))
          \<and> (scale p = 1 \<longrightarrow>
               (vw * cs = w \<and> (w - vw * cs) / 2 = 0 \<and> h \<le> vh * cs) \<or>
               (vh * cs = h \<and> (h - vh * cs) / 2 = 0 \<and> w \<le> vw * cs))"
proof -
  define cv where "cv = fst (resize_canvas (containerRef s) cv0)"
  define w where "w = real (width cv)"
  define h where "h = real (height cv)"
  define vw where "vw = real (videoWidth vid)"
  define vh where "vh = real (videoHeight vid)"
  have pos: "0 < vw" "0 < vh" using assms by (simp_all add: vw_def vh_def)
  have nth: "commands (renderLoop p src s) ! (length (snd (resize_canvas (containerRef s) cv0)) + 1)
               = base_draw p (feedback_ctx p (context2d cv)) w h vw vh"
    unfolding renderLoop_ready [OF assms(1-3)] cv_def w_def h_def vw_def vh_def
    by (simp add: nth_append)
  have dW: "drawW p w h vw vh = vw * (max (w / vw) (h / vh) * scale p)"
    and dH: "drawH p w h vw vh = vh * (max (w / vw) (h / vh) * scale p)"
    by (simp_all add: drawW_def drawH_def coverScale_def)
  have one: "0 \<le> scale p \<Longrightarrow>
       (drawW p w h vw vh = w * scale p \<and> h * scale p \<le> drawH p w h vw vh) \<or>
       (drawH p w h vw vh = h * scale p \<and> w * scale p \<le> drawW p w h vw vh)"
    using cover_one_axis [OF pos] by blast
  have unit: "scale p = 1 \<Longrightarrow>
       (drawW p w h vw vh = w \<and> (w - drawW p w h vw vh) / 2 = 0 \<and> h \<le> drawH p w h vw vh) \<or>
       (drawH p w h vw vh = h \<and> (h - drawH p w h vw vh) / 2 = 0 \<and> w \<le> drawW p w h vw vh)"
    using one by auto
  show ?thesis
    unfolding Let_def cv_def [symmetric] w_def [symmetric] h_def [symmetric]
      vw_def [symmetric] vh_def [symmetric] nth
    using one unit
    by (simp add: base_draw_def base_filter_def offsetX_def offsetY_def dW dH feedback_ctx_def
        field_simps)
qed

theorem base_composite_cover_fit_witness:
  "snd (commands (renderLoop defaultParams ''v'' wide_world) ! 1) = DrawImage 0 (- 1) 4 4
   \<and> globalCompositeOperation (fst (commands (renderLoop defaultParams ''v'' wide_world) ! 1)) = Screen"
  using base_composite_cover_fit [of wide_world "\<lparr> width = 4, height = 2, context2d = default_ctx \<rparr>"
       "\<lparr> readyState = 4, videoWidth = 2, videoHeight = 2 \<rparr>" defaultParams "''v''"]
  by (simp add: wide_world_def resize_canvas_def defaultParams_def Let_def)

text \<open>
  C1 as stated fails: with \<open>scale = 1/2\<close>, a 2 by 2 frame is drawn 1 by 1 in the middle
  of a 2 by 2 surface and covers neither axis.
\<close>

theorem base_composite_scale_counterexample:
  "snd (commands (renderLoop (defaultParams \<lparr> scale := 1 / 2 \<rparr>) ''v'' square_world) ! 1)
     = DrawImage (1 / 2) (1 / 2) 1 1
   \<and> canvasRef (after (renderLoop (defaultParams \<lparr> scale := 1 / 2 \<rparr>) ''v'' square_world))
     = Some \<lparr> width = 2, height = 2, context2d = feedback_ctx (defaultParams \<lparr> scale := 1 / 2 \<rparr>) default_ctx \<rparr>
   \<and> \<not> (drawW (defaultParams \<lparr> scale := 1 / 2 \<rparr>) 2 2 2 2 = 2
        \<or> drawH (defaultParams \<lparr> scale := 1 / 2 \<rparr>) 2 2 2 2 = 2)"
  by (simp add: renderLoop_def square_world_def resize_canvas_def defaultParams_def Let_def
      base_draw_def offsetX_def offsetY_def drawW_def drawH_def coverScale_def feedback_fill_def
      slice_attempt_def numeral_eq_Suc)

section \<open>The glitch slices\<close>




text \<open>
  Every call the slice loop makes comes from an attempt that passed the chaos test.
\<close>

lemma slices_loop_member:
  assumes "c \<in> set (fst (slices_loop p vw vh scl offX offY ctx rnd n k))"
  shows "\<exists>j \<ge> k. 1 - chaos p < rnd j
           \<and> c \<in> set (fst (slice_attempt p vw vh scl offX offY ctx rnd j))"
  using assms
proof (induction n arbitrary: k)
  case 0
  then show ?case by simp
next
  case (Suc n)
  obtain cs k1 where at: "slice_attempt p vw vh scl offX offY ctx rnd k = (cs, k1)"
    by (cases "slice_attempt p vw vh scl offX offY ctx rnd k")
  obtain rest k2 where lp: "slices_loop p vw vh scl offX offY ctx rnd n k1 = (rest, k2)"
    by (cases "slices_loop p vw vh scl offX offY ctx rnd n k1")
  from Suc.prems have "c \<in> set cs \<or> c \<in> set rest" by (simp add: at lp)
  then show ?case
  proof
    assume c: "c \<in> set cs"
    have "1 - chaos p < rnd k"
    proof (rule ccontr)
      assume "\<not> 1 - chaos p < rnd k"
      then have "cs = []" using at by (simp add: slice_attempt_def)
      with c show False by simp
    qed
    then show ?thesis using c at by (intro exI [of _ k]) simp
  next
    assume "c \<in> set rest"
    then have "c \<in> set (fst (slices_loop p vw vh scl offX offY ctx rnd n k1))" by (simp add: lp)
    then obtain j where j: "k1 \<le> j" "1 - chaos p < rnd j"
        "c \<in> set (fst (slice_attempt p vw vh scl offX offY ctx rnd j))"
      using Suc.IH by blast
    have "k \<le> k1" using at by (auto simp add: slice_attempt_def Let_def split: if_splits)
    then show ?thesis using j by (intro exI [of _ j]) simp
  qed
qed



section \<open>The feedback overlay\<close>

lemma renderLoop_begins:
  assumes "canvasRef s = Some cv0" "videoRef s = Some vid"
  shows "commands (renderLoop p src s) ! length (snd (resize_canvas (containerRef s) cv0)) =
           feedback_fill p (context2d (fst (resize_canvas (containerRef s) cv0)))
              (real (width (fst (resize_canvas (containerRef s) cv0))))
              (real (height (fst (resize_canvas (containerRef s) cv0))))"
  using assms by (simp add: renderLoop_def Let_def nth_append split: prod.splits)














section \<open>The no-signal noise\<close>

lemma noise_loop_length: "length (fst (noise_loop rnd i buffer32 k)) = length buffer32"
proof (induction rnd i buffer32 k rule: noise_loop.induct)
  case (1 rnd i buffer32 k)
  show ?case
  proof (cases "i < length buffer32")
    case True
    then show ?thesis using 1 by (subst noise_loop.simps) simp
  next
    case False
    then show ?thesis by (subst noise_loop.simps) simp
  qed
qed

lemma noise_loop_counter: "snd (noise_loop rnd i buffer32 k) = k + (length buffer32 - i)"
proof (induction rnd i buffer32 k rule: noise_loop.induct)
  case (1 rnd i buffer32 k)
  show ?case
  proof (cases "i < length buffer32")
    case True
    then show ?thesis using 1 by (subst noise_loop.simps) simp
  next
    case False
    then show ?thesis by (subst noise_loop.simps) simp
  qed
qed

lemma noise_loop_nth:
  "j < length buffer32 \<Longrightarrow>
   fst (noise_loop rnd i buffer32 k) ! j =
     (if i \<le> j \<and> rnd (k + (j - i)) < 1 / 10 then 0xff1a1a1a else buffer32 ! j)"
proof (induction rnd i buffer32 k rule: noise_loop.induct)
  case (1 rnd i buffer32 k)
  show ?case
  proof (cases "i < length buffer32")
    case False
    then show ?thesis using "1.prems" by (subst noise_loop.simps) simp
  next
    case True
    let ?b = "if rnd k < 1 / 10 then buffer32[i := 0xff1a1a1a] else buffer32"
    have len: "j < length ?b" using "1.prems" by simp
    have step: "fst (noise_loop rnd i buffer32 k) ! j = fst (noise_loop rnd (i + 1) ?b (k + 1)) ! j"
      using True by (subst noise_loop.simps) simp
    have ih: "fst (noise_loop rnd (i + 1) ?b (k + 1)) ! j =
                (if i + 1 \<le> j \<and> rnd (k + 1 + (j - (i + 1))) < 1 / 10 then 0xff1a1a1a else ?b ! j)"
      using "1.IH" [OF True len] .
    show ?thesis
    proof (cases "j = i")
      case True
      then show ?thesis using step ih "1.prems" by simp
    next
      case False
      then show ?thesis using step ih "1.prems" by (cases "i < j") (auto simp add: Suc_diff_Suc)
    qed
  qed
qed

lemma noise_loop_fresh:
  "fst (noise_loop rnd 0 (replicate n 0) k) =
     map (\<lambda>i. if rnd (k + i) < 1 / 10 then 0xff1a1a1a else 0) [0..<n]"
  by (rule nth_equalityI) (simp_all add: noise_loop_length noise_loop_nth)

lemma upt_two: "[0..<2] = [0, 1]"
  by (simp add: numeral_2_eq_2)

lemma pixel_of_grey: "pixel_of_word 0xff1a1a1a = (26, 26, 26)"
  by (simp add: pixel_of_word_def)

lemma pixel_of_zero: "pixel_of_word 0 = (0, 0, 0)"
  by (simp add: pixel_of_word_def)


lemma renderLoop_noise:
  assumes "canvasRef s = Some cv0" "videoRef s = Some vid" "readyState vid < 2"
    and "0 < width (fst (resize_canvas (containerRef s) cv0))"
    and "0 < height (fst (resize_canvas (containerRef s) cv0))"
  shows "renderLoop p [] s =
     \<lparr> after = s \<lparr> canvasRef := Some ((fst (resize_canvas (containerRef s) cv0))
              \<lparr> context2d := feedback_ctx p (context2d (fst (resize_canvas (containerRef s) cv0))) \<rparr>),
            drawn := drawn s + width (fst (resize_canvas (containerRef s) cv0))
                             * height (fst (resize_canvas (containerRef s) cv0)) \<rparr>,
       commands = snd (resize_canvas (containerRef s) cv0) @
         [feedback_fill p (context2d (fst (resize_canvas (containerRef s) cv0)))
            (real (width (fst (resize_canvas (containerRef s) cv0))))
            (real (height (fst (resize_canvas (containerRef s) cv0)))),
          (feedback_ctx p (context2d (fst (resize_canvas (containerRef s) cv0))),
           PutImageData
             (map (\<lambda>i. if math_random s (drawn s + i) < 1 / 10 then 0xff1a1a1a else 0)
                [0..<width (fst (resize_canvas (containerRef s) cv0))
                       * height (fst (resize_canvas (containerRef s) cv0))]) 0 0)],
       raised = None, rescheduled = True \<rparr>"
proof -
  obtain cv rs where rc: "resize_canvas (containerRef s) cv0 = (cv, rs)"
    by (cases "resize_canvas (containerRef s) cv0")
  obtain b k where nl: "noise_loop (math_random s) 0 (replicate (width cv * height cv) 0) (drawn s) = (b, k)"
    by (cases "noise_loop (math_random s) 0 (replicate (width cv * height cv) 0) (drawn s)")
  have b: "b = map (\<lambda>i. if math_random s (drawn s + i) < 1 / 10 then 0xff1a1a1a else 0)
                 [0..<width cv * height cv]"
    using noise_loop_fresh [of "math_random s" "width cv * height cv" "drawn s"] nl by simp
  have k: "k = drawn s + width cv * height cv"
    using noise_loop_counter [of "math_random s" 0 "replicate (width cv * height cv) 0" "drawn s"] nl
    by simp
  show ?thesis
    using assms by (simp add: renderLoop_def Let_def rc nl b k)
qed

lemma renderLoop_noise_world:
  "renderLoop defaultParams [] noise_world =
     \<lparr> after = noise_world
          \<lparr> canvasRef := Some \<lparr> width = 2, height = 1,
                                 context2d = feedback_ctx defaultParams default_ctx \<rparr>,
            drawn := 2 \<rparr>,
       commands = [feedback_fill defaultParams default_ctx 2 1,
                   (feedback_ctx defaultParams default_ctx, PutImageData [0xff1a1a1a, 0] 0 0)],
       raised = None, rescheduled = True \<rparr>"
  using renderLoop_noise [of noise_world "\<lparr> width = 2, height = 1, context2d = default_ctx \<rparr>"
        "\<lparr> readyState = 0, videoWidth = 0, videoHeight = 0 \<rparr>" defaultParams]
  by (simp add: noise_world_def resize_canvas_def sparse_random_def upt_two)

text \<open>
  C4, as amended. When the video is not ready and no source is configured (and the canvas is
  not empty), the tick fills the feedback overlay, builds a fresh buffer of the size of the
  canvas, all zero, sets each element to \<open>0xff1a1a1a\<close>, the opaque grey (26, 26, 26),
  exactly when that element's own \<open>Math.random()\<close> value is below 0.1, and writes the whole
  buffer to the surface with \<open>putImageData\<close>. The elements not chosen stay zero in the
  buffer, so on the surface every pixel is replaced: grey where chosen, black elsewhere,
  whatever was there before. No \<open>drawImage\<close> call is made and the next frame is requested.
\<close>

theorem no_signal_noise:
  assumes "canvasRef s = Some cv0" and "videoRef s = Some vid" and "readyState vid < 2"
    and "0 < width (fst (resize_canvas (containerRef s) cv0))"
    and "0 < height (fst (resize_canvas (containerRef s) cv0))"
  shows "let cv = fst (resize_canvas (containerRef s) cv0);
             n = width cv * height cv;
             out = renderLoop p [] s
         in commands out =
              snd (resize_canvas (containerRef s) cv0) @
              [feedback_fill p (context2d cv) (real (width cv)) (real (height cv)),
               (feedback_ctx p (context2d cv),
                PutImageData
                  (map (\<lambda>i. if math_random s (drawn s + i) < 1 / 10 then 0xff1a1a1a else 0) [0..<n])
                  0 0)]
          \<and> drawn (after out) = drawn s + n
          \<and> raised out = None \<and> rescheduled out = True
          \<and> pixel_of_word 0xff1a1a1a = (26, 26, 26) \<and> pixel_of_word 0 = (0, 0, 0)
          \<and> (\<forall>sf. surface_width sf = width cv \<and> surface_height sf = height cv \<longrightarrow>
                paint (last (commands out)) sf =
                  Some (sf \<lparr> pixels :=
                     map (\<lambda>i. if math_random s (drawn s + i) < 1 / 10 then (26, 26, 26) else (0, 0, 0))
                       [0..<n] \<rparr>))"
  unfolding Let_def renderLoop_noise [OF assms]
  by (simp add: pixel_of_grey pixel_of_zero o_def if_distrib [of pixel_of_word] cong: if_cong)

theorem no_signal_noise_witness:
  "commands (renderLoop defaultParams [] noise_world) =
     [feedback_fill defaultParams default_ctx 2 1,
      (feedback_ctx defaultParams default_ctx, PutImageData [0xff1a1a1a, 0] 0 0)]
   \<and> drawn (after (renderLoop defaultParams [] noise_world)) = 2"
  using no_signal_noise [of noise_world "\<lparr> width = 2, height = 1, context2d = default_ctx \<rparr>"
      "\<lparr> readyState = 0, videoWidth = 0, videoHeight = 0 \<rparr>" defaultParams]
  by (simp add: noise_world_def resize_canvas_def sparse_random_def Let_def upt_two)

text \<open>
  C4 as stated fails: on a white 2 by 1 surface with the second pixel not chosen, the
  overlay leaves 25.5 in that pixel and the noise write then sets it to black; it is not
  left untouched.
\<close>

theorem no_signal_noise_counterexample:
  "paint_all [hd (commands (renderLoop defaultParams [] noise_world))] white_surface
     = Some (white_surface \<lparr> pixels := [(51 / 2, 51 / 2, 51 / 2), (51 / 2, 51 / 2, 51 / 2)] \<rparr>)
   \<and> map_option (\<lambda>ws. pixels (snd ws)) (tick defaultParams [] (noise_world, white_surface))
     = Some [(26, 26, 26), (0, 0, 0)]"
proof -
  have t: "tick defaultParams [] (noise_world, white_surface) =
             map_option (Pair (after (renderLoop defaultParams [] noise_world)))
               (paint_all (commands (renderLoop defaultParams [] noise_world)) white_surface)"
    by (simp add: tick_def renderLoop_noise_world)
  show ?thesis
    unfolding t renderLoop_noise_world
    by (simp add: white_surface_def default_ctx_def feedback_fill_def feedback_ctx_def
        defaultParams_def pixel_of_grey pixel_of_zero)
qed

section \<open>Missing handles\<close>


section \<open>Rejected playback\<close>

text \<open>
  C6. When the platform rejects \<open>play()\<close>, the rejection is logged, but \<open>togglePlay\<close>
  sets \<open>isPlaying\<close> all the same, and so does \<open>handleFileUpload\<close> before the effect on
  \<open>videoSrc\<close> starts playback. Only that effect advances the play state on success alone.
\<close>

theorem rejected_play_advances_state:
  "togglePlay False (initial_app \<lparr> videoSrc := ''blob:v'' \<rparr>) =
     initial_app \<lparr> videoSrc := ''blob:v'', isPlaying := True, console := [PlayRejected] \<rparr>
   \<and> videoSrc_effect False (handleFileUpload (Some ''blob:v'') initial_app) =
     initial_app \<lparr> videoSrc := ''blob:v'', isPlaying := True, console := [PlayRejected] \<rparr>
   \<and> videoSrc_effect False (initial_app \<lparr> videoSrc := ''blob:v'' \<rparr>) =
     initial_app \<lparr> videoSrc := ''blob:v'', console := [PlayRejected] \<rparr>"
  by (simp add: togglePlay_def videoSrc_effect_def handleFileUpload_def play_catch_def initial_app_def)

section \<open>Stopping while idle\<close>


section \<open>Recording sessions\<close>














text \<open>
  C10. If \<open>startRecording\<close> is called while the recorder in \<open>recorderRef\<close> still records,
  that recorder is neither stopped nor detached: it keeps recording, the shared buffer is
  emptied, a new recorder is installed in the ref, a non-empty chunk the previous recorder
  then delivers is appended to the buffer, and the file saved when the new recorder stops
  contains it; the previous recorder still records after that.
\<close>

theorem restart_keeps_previous_recorder:
  assumes "recorderRef s = Some r0" and "r0 < length (recorders s)"
    and "recorders s ! r0 = Recording" and "canvas_mounted s"
  shows "let s1 = snd (startRecording s); r1 = length (recorders s)
         in fst (startRecording s) = None
          \<and> recorders s1 ! r0 = Recording
          \<and> recorders s1 ! r1 = Recording \<and> recorderRef s1 = Some r1 \<and> r1 \<noteq> r0
          \<and> recordedChunksRef s1 = []
          \<and> (\<forall>data. data \<noteq> [] \<longrightarrow>
                step strict (DataAvailable r0 data) s1 = Some (s1 \<lparr> recordedChunksRef := [data] \<rparr>))
          \<and> (\<forall>data. data \<noteq> [] \<longrightarrow>
                map_option (\<lambda>s2. (downloads s2, recorders s2 ! r0))
                  (run strict [DataAvailable r0 data, CallStop, StopEvent r1] s1)
                  = Some (downloads s @ [artifact [data]], Recording))"
  using assms
  by (simp add: Let_def startRecording_def step_def stopRecording_def media_stop_def
      ondataavailable_def onstop_def nth_append)

theorem restart_keeps_previous_recorder_witness:
  "map_option downloads (run False [CallStart, DataAvailable 0 [7], CallStop, StopEvent 1]
     (snd (startRecording initial_app))) = Some [artifact [[7]]]"
  using restart_keeps_previous_recorder [of "snd (startRecording initial_app)" 0 False]
  by (simp add: Let_def startRecording_def initial_app_def step_def stopRecording_def
      media_stop_def ondataavailable_def onstop_def)

section \<open>Determinism of a tick\<close>








end
